theory Spec2Isabelle
  imports Complex_Main
begin

section \<open>Subsection activity tracking: data model\<close>

text \<open>
  The tracking code keeps one \<open>SubsectionProgress\<close> row per (user, subsection) and reads
  the policy fields of the \<open>Subsection\<close>. Timestamps are \<open>datetime\<close> values; the code only
  ever subtracts two of them and takes \<open>total_seconds()\<close>, so a timestamp is modelled as a
  real number of seconds. Python floats are modelled as reals, Python's unbounded \<open>int\<close>
  as \<open>int\<close>, and a nullable column as an \<open>option\<close>.
\<close>

type_synonym datetime = real

record Subsection =
  section_id :: int
  topic_id :: int
  required_time_minutes :: "int option"
  min_time_seconds :: "int option"

text \<open>One entry of the JSON column \<open>activity_sessions\<close>: \<open>{start, end, duration}\<close>.\<close>

record activity_session =
  session_start :: datetime
  session_end :: datetime
  session_duration :: int

record SubsectionProgress =
  progress_id :: int
  user_id :: int
  subsection_id :: int
  is_viewed :: bool
  viewed_at :: "datetime option"
  time_spent_seconds :: int
  last_activity_at :: "datetime option"
  session_start_at :: "datetime option"
  is_completed :: bool
  completion_percentage :: real
  activity_sessions :: "activity_session list option"

text \<open>Python's \<open>int(x)\<close> on a float truncates towards zero.\<close>

definition py_int :: "real \<Rightarrow> int" where
  "py_int x = (if 0 \<le> x then \<lfloor>x\<rfloor> else \<lceil>x\<rceil>)"

text \<open>
  \<open>v or d\<close> on an optional integer column: \<open>None\<close> and \<open>0\<close> are both falsy, so both
  give the default.
\<close>

definition py_or :: "int option \<Rightarrow> int \<Rightarrow> int" where
  "py_or v d = (case v of None \<Rightarrow> d | Some n \<Rightarrow> if n = 0 then d else n)"

section \<open>Completion percentage\<close>

text \<open>
  \<open>calculate_subsection_completion\<close>. The guard \<open>if not subsection.required_time_minutes\<close>
  takes the first branch for \<open>None\<close> and for \<open>0\<close>.
\<close>

definition calculate_subsection_completion :: "SubsectionProgress \<Rightarrow> Subsection \<Rightarrow> real" where
  "calculate_subsection_completion progress subsection =
     (let no_required_time =
            (let min_time = py_or (min_time_seconds subsection) 30
             in if time_spent_seconds progress \<ge> min_time then 100
                else (real_of_int (time_spent_seconds progress) / real_of_int min_time) * 100)
      in case required_time_minutes subsection of
           None \<Rightarrow> no_required_time
         | Some r \<Rightarrow>
             if r = 0 then no_required_time
             else (let required_seconds = r * 60;
                       completion =
                         (real_of_int (time_spent_seconds progress) / real_of_int required_seconds) * 100
                   in min completion 100))"

text \<open>
  The completion formula as the specification words it, over the time spent and the two
  policy fields: a field counts as unset only when it is null.
\<close>

definition spec_completion :: "int \<Rightarrow> int option \<Rightarrow> int option \<Rightarrow> real" where
  "spec_completion t required minimum =
     (case required of
        None \<Rightarrow>
          (let m = (case minimum of None \<Rightarrow> 30 | Some m \<Rightarrow> m)
           in if t \<ge> m then 100 else 100 * real_of_int t / real_of_int m)
      | Some r \<Rightarrow> min 100 (100 * real_of_int t / real_of_int (r * 60)))"

text \<open>Reading a stored \<open>0\<close> as unset, which is what Python's truth test does.\<close>

definition unset_if_zero :: "int option \<Rightarrow> int option" where
  "unset_if_zero v = (if v = Some 0 then None else v)"

text \<open>The specification's \<open>clamp(x, lo, hi)\<close>.\<close>

definition clamp :: "real \<Rightarrow> real \<Rightarrow> real \<Rightarrow> real" where
  "clamp x lo hi = max lo (min x hi)"

section \<open>Activity validation\<close>

text \<open>
  \<open>validate_activity\<close> returns a bool, may write \<open>session_start_at\<close>, and names the
  reason of each refusal only in a \<open>logger.warning\<close>. The model returns the row as the
  function leaves it, the warning it logged, and the bool. The clock value
  \<open>datetime.utcnow()\<close>, the result of \<open>get_recent_activity_intervals\<close> and the result of
  \<open>count_active_sessions\<close> are inputs. The interval list is only read inside the
  14.9 to 15.1 branch, as in the source.
\<close>

datatype warning = TooFrequent | SuspiciousRegularity | TooManyActiveSessions | SessionTooLong

definition validate_activity ::
  "SubsectionProgress \<Rightarrow> datetime \<Rightarrow> real list \<Rightarrow> int \<Rightarrow> SubsectionProgress \<times> warning option \<times> bool" where
  "validate_activity progress now recent_intervals active_sessions =
     (let interval_check =
            (case last_activity_at progress of
               None \<Rightarrow> None
             | Some last_at \<Rightarrow>
                 (let time_diff = now - last_at
                  in if time_diff < 10 then Some TooFrequent
                     else if 14.9 \<le> time_diff \<and> time_diff \<le> 15.1
                             \<and> list_all (\<lambda>interval. 14.9 \<le> interval \<and> interval \<le> 15.1) recent_intervals
                     then Some SuspiciousRegularity
                     else None))
      in case interval_check of
           Some w \<Rightarrow> (progress, Some w, False)
         | None \<Rightarrow>
             if active_sessions > 3 then (progress, Some TooManyActiveSessions, False)
             else (case session_start_at progress of
                     None \<Rightarrow> (progress, None, True)
                   | Some started \<Rightarrow>
                       if now - started > 7200
                       then (progress\<lparr>session_start_at := Some now\<rparr>, Some SessionTooLong, True)
                       else (progress, None, True)))"

text \<open>
  The band of the regularity check, and what it means for a row to get past the two
  interval checks of \<open>validate_activity\<close> (spacing and regularity).
\<close>

definition in_band :: "real \<Rightarrow> bool" where
  "in_band x = (14.9 \<le> x \<and> x \<le> 15.1)"

definition interval_check_passes :: "SubsectionProgress \<Rightarrow> datetime \<Rightarrow> real list \<Rightarrow> bool" where
  "interval_check_passes progress now recent =
     (case last_activity_at progress of
        None \<Rightarrow> True
      | Some l \<Rightarrow> 10 \<le> now - l \<and> \<not> (in_band (now - l) \<and> list_all in_band recent))"

section \<open>Bot detection\<close>

text \<open>
  \<open>detect_bot_activity\<close> reads \<open>recent_activities\<close> from \<open>get_user_recent_activities\<close>
  (an input here: the \<open>created_at\<close> of each activity) and then builds the intervals from a
  name \<open>activities\<close> that the function itself never binds. That name is an input of the
  model too: \<open>None\<close> when nothing binds it (Python raises \<open>NameError\<close>), which is the
  case in the source as it stands; otherwise the list it is bound to, and an index past
  its end raises \<open>IndexError\<close>.
\<close>

datatype py_exception = NameError | IndexError

definition activity_intervals :: "datetime list \<Rightarrow> nat \<Rightarrow> py_exception + real list" where
  "activity_intervals acts n =
     (if list_all (\<lambda>i. i + 1 < length acts) [0..<n]
      then Inr (map (\<lambda>i. acts ! (i + 1) - acts ! i) [0..<n])
      else Inl IndexError)"

text \<open>\<open>statistics.stdev\<close>: the square root of the sample variance (divisor \<open>n - 1\<close>).\<close>

definition mean :: "real list \<Rightarrow> real" where
  "mean xs = sum_list xs / real (length xs)"

definition sample_variance :: "real list \<Rightarrow> real" where
  "sample_variance xs = sum_list (map (\<lambda>x. (x - mean xs)\<^sup>2) xs) / (real (length xs) - 1)"

definition stdev :: "real list \<Rightarrow> real" where
  "stdev xs = sqrt (sample_variance xs)"

definition detect_bot_activity :: "datetime list \<Rightarrow> datetime list option \<Rightarrow> py_exception + bool" where
  "detect_bot_activity recent_activities activities =
     (if length recent_activities < 10 then Inr False
      else case activities of
             None \<Rightarrow> Inl NameError
           | Some acts \<Rightarrow>
               (case activity_intervals acts (length recent_activities - 1) of
                  Inl e \<Rightarrow> Inl e
                | Inr intervals \<Rightarrow>
                    (let std_dev = (if length intervals > 1 then stdev intervals else 0)
                     in if std_dev < 1 then Inr True else Inr False)))"

text \<open>The intervals between consecutive entries of a list of activity times.\<close>

definition intervals_between :: "datetime list \<Rightarrow> real list" where
  "intervals_between acts = map (\<lambda>i. acts ! (i + 1) - acts ! i) [0..<length acts - 1]"

text \<open>
  \<open>require_captcha_verification\<close>: the only place that sets the one-hour marker. The cache
  is a map from the user id (the key is \<open>captcha_required:{user_id}\<close>) to the value stored
  and its time to live in seconds. \<open>cache.get\<close> gives \<open>None\<close> for a missing key, and the
  test \<open>if captcha_required:\<close> is Python's truth test: a missing key and a stored empty
  value both fall through to the detector.
\<close>

type_synonym captcha_cache = "int \<rightharpoonup> string \<times> nat"

definition cache_get :: "captcha_cache \<Rightarrow> int \<Rightarrow> string option" where
  "cache_get cache uid = (case cache uid of None \<Rightarrow> None | Some (v, ttl) \<Rightarrow> Some v)"

definition truthy :: "string option \<Rightarrow> bool" where
  "truthy v = (case v of None \<Rightarrow> False | Some stored \<Rightarrow> stored \<noteq> [])"

definition require_captcha_verification ::
  "captcha_cache \<Rightarrow> int \<Rightarrow> datetime list \<Rightarrow> datetime list option \<Rightarrow> captcha_cache \<times> (py_exception + bool)" where
  "require_captcha_verification cache uid recent_activities activities =
     (let captcha_required = cache_get cache uid
      in if truthy captcha_required then (cache, Inr True)
         else
           (case detect_bot_activity recent_activities activities of
              Inl e \<Rightarrow> (cache, Inl e)
            | Inr True \<Rightarrow> (cache(uid \<mapsto> (''1'', 3600)), Inr True)
            | Inr False \<Rightarrow> (cache, Inr False)))"

section \<open>Rate limiter\<close>

text \<open>
  The source configures \<open>Limiter(key_func=get_remote_address)\<close> and decorates the heartbeat
  with \<open>limiter.limit("4/minute")\<close>; the limiter itself is library code. Its state maps a
  key to the time its current window opened and the attempts admitted in it.
\<close>

type_synonym limiter_state = "string \<rightharpoonup> datetime \<times> nat"

text \<open>
  Modelled from the spec: the window mechanics of the limiter, which the source does not
  contain. A fixed window of 60 seconds per key admits 4 attempts (the source's limit of 4
  per minute); a refused attempt is not counted; an attempt 60 seconds or more after the
  window opened opens a new window.
\<close>

definition limiter_hit :: "limiter_state \<Rightarrow> string \<Rightarrow> datetime \<Rightarrow> limiter_state \<times> bool" where
  "limiter_hit st k now =
     (case st k of
        None \<Rightarrow> (st(k \<mapsto> (now, 1)), True)
      | Some (opened, hits) \<Rightarrow>
          if now - opened \<ge> 60 then (st(k \<mapsto> (now, 1)), True)
          else if hits < 4 then (st(k \<mapsto> (opened, hits + 1)), True)
          else (st, False))"





section \<open>The three endpoints\<close>

text \<open>
  The errors a request can end in: 429 from the limiter, 403 from the bot check, 404 when
  no row is found (\<open>Session not found\<close> in the heartbeat, \<open>Progress not found\<close> in
  complete), 429 from the validator, and an exception nobody catches.
\<close>

datatype error =
    RateLimited
  | VerificationRequired
  | SessionNotFound
  | TooManyRequests
  | Unhandled py_exception

datatype cascade_call = UpdateSectionProgress int int | UpdateTopicProgress int int

record HeartbeatResponse =
  hb_time_spent_seconds :: int
  hb_completion_percentage :: real
  hb_is_completed :: bool
  next_heartbeat_in_seconds :: int

record SubsectionSessionResponse =
  ss_session_id :: int
  ss_subsection_id :: int
  ss_started_at :: "datetime option"
  ss_time_spent_seconds :: int
  ss_completion_percentage :: real

record SubsectionProgressRead =
  pr_id :: int
  pr_subsection_id :: int
  pr_user_id :: int
  pr_is_viewed :: bool
  pr_is_completed :: bool
  pr_viewed_at :: "datetime option"
  pr_time_spent_seconds :: int
  pr_completion_percentage :: real
  pr_last_activity_at :: "datetime option"

text \<open>
  Everything one heartbeat request reads from outside the row: who calls and from which
  address, the three clock readings (limiter, \<open>validate_activity\<close>, handler body), the
  results of the helper queries, and the subsection.
\<close>

record heartbeat_env =
  remote_address :: string
  current_user :: int
  hb_subsection_id :: int
  now_limiter :: datetime
  recent_activities :: "datetime list"
  activities :: "datetime list option"
  recent_intervals :: "real list"
  active_sessions :: int
  now_validate :: datetime
  now_handler :: datetime
  hb_subsection :: Subsection

definition heartbeat_response :: "SubsectionProgress \<Rightarrow> HeartbeatResponse" where
  "heartbeat_response progress =
     \<lparr>hb_time_spent_seconds = time_spent_seconds progress,
      hb_completion_percentage = completion_percentage progress,
      hb_is_completed = is_completed progress,
      next_heartbeat_in_seconds = 15\<rparr>"

text \<open>
  The body of \<open>subsection_heartbeat\<close>. The argument is what \<open>get_subsection_progress\<close>
  found. The result is the row as the body leaves it, the cascade calls it made, and the
  response or the error raised. The order of the source is kept: bot check, row lookup,
  validation, time credit, completion, cascade.
\<close>

definition subsection_heartbeat ::
  "heartbeat_env \<Rightarrow> SubsectionProgress option \<Rightarrow>
   (SubsectionProgress option \<times> cascade_call list) \<times> (error + HeartbeatResponse)" where
  "subsection_heartbeat env found =
     (case detect_bot_activity (recent_activities env) (activities env) of
        Inl e \<Rightarrow> ((found, []), Inl (Unhandled e))
      | Inr True \<Rightarrow> ((found, []), Inl VerificationRequired)
      | Inr False \<Rightarrow>
          (case found of
             None \<Rightarrow> ((None, []), Inl SessionNotFound)
           | Some progress \<Rightarrow>
               (case validate_activity progress (now_validate env) (recent_intervals env) (active_sessions env) of
                  (progress1, logged, ok) \<Rightarrow>
                    if \<not> ok then ((Some progress1, []), Inl TooManyRequests)
                    else
                      (let now = now_handler env;
                           time_increment =
                             (case last_activity_at progress1 of
                                None \<Rightarrow> 15
                              | Some last_at \<Rightarrow> min (now - last_at) 60);
                           progress2 = progress1
                             \<lparr>time_spent_seconds := time_spent_seconds progress1 + py_int time_increment,
                              last_activity_at := Some now\<rparr>;
                           progress3 = progress2
                             \<lparr>completion_percentage :=
                                calculate_subsection_completion progress2 (hb_subsection env)\<rparr>
                       in if completion_percentage progress3 \<ge> 100 \<and> \<not> is_completed progress3
                          then
                            (let progress4 = progress3
                                   \<lparr>is_completed := True, is_viewed := True, viewed_at := Some now\<rparr>
                             in ((Some progress4,
                                  [UpdateSectionProgress (current_user env) (section_id (hb_subsection env)),
                                   UpdateTopicProgress (current_user env) (topic_id (hb_subsection env))]),
                                 Inr (heartbeat_response progress4)))
                          else ((Some progress3, []), Inr (heartbeat_response progress3))))))"

text \<open>
  Modelled from the spec: \<open>get_or_create_subsection_progress\<close>, which the source calls but
  does not contain. The row is created lazily with the column defaults of the model.
\<close>

definition get_or_create_subsection_progress ::
  "int \<Rightarrow> int \<Rightarrow> int \<Rightarrow> SubsectionProgress option \<Rightarrow> SubsectionProgress" where
  "get_or_create_subsection_progress new_id uid sid found =
     (case found of
        Some progress \<Rightarrow> progress
      | None \<Rightarrow>
          \<lparr>progress_id = new_id, user_id = uid, subsection_id = sid,
           is_viewed = False, viewed_at = None, time_spent_seconds = 0,
           last_activity_at = None, session_start_at = None, is_completed = False,
           completion_percentage = 0, activity_sessions = None\<rparr>)"

record start_env =
  st_new_id :: int
  st_user :: int
  st_subsection_id :: int
  st_now :: datetime

definition start_subsection_viewing ::
  "start_env \<Rightarrow> SubsectionProgress option \<Rightarrow> SubsectionProgress \<times> SubsectionSessionResponse" where
  "start_subsection_viewing env found =
     (let progress0 = get_or_create_subsection_progress (st_new_id env) (st_user env) (st_subsection_id env) found;
          progress = progress0\<lparr>session_start_at := Some (st_now env)\<rparr>
      in (progress,
          \<lparr>ss_session_id = progress_id progress,
           ss_subsection_id = st_subsection_id env,
           ss_started_at = session_start_at progress,
           ss_time_spent_seconds = time_spent_seconds progress,
           ss_completion_percentage = completion_percentage progress\<rparr>))"

definition progress_read :: "SubsectionProgress \<Rightarrow> SubsectionProgressRead" where
  "progress_read progress =
     \<lparr>pr_id = progress_id progress,
      pr_subsection_id = subsection_id progress,
      pr_user_id = user_id progress,
      pr_is_viewed = is_viewed progress,
      pr_is_completed = is_completed progress,
      pr_viewed_at = viewed_at progress,
      pr_time_spent_seconds = time_spent_seconds progress,
      pr_completion_percentage = completion_percentage progress,
      pr_last_activity_at = last_activity_at progress\<rparr>"

text \<open>
  \<open>complete_subsection_viewing\<close> reads the clock twice: once for the duration and once
  for the end of the entry. An empty or null history is replaced by a fresh list before
  the append.
\<close>

definition complete_subsection_viewing ::
  "datetime \<Rightarrow> datetime \<Rightarrow> SubsectionProgress option \<Rightarrow>
   SubsectionProgress option \<times> (error + SubsectionProgressRead)" where
  "complete_subsection_viewing now_duration now_end found =
     (case found of
        None \<Rightarrow> (None, Inl SessionNotFound)
      | Some progress \<Rightarrow>
          (case session_start_at progress of
             None \<Rightarrow> (Some progress, Inr (progress_read progress))
           | Some started \<Rightarrow>
               (let duration = now_duration - started;
                    history = (case activity_sessions progress of None \<Rightarrow> [] | Some h \<Rightarrow> h);
                    progress1 = progress
                      \<lparr>activity_sessions :=
                         Some (history @
                           [\<lparr>session_start = started, session_end = now_end,
                             session_duration = py_int duration\<rparr>]),
                       session_start_at := None\<rparr>
                in (Some progress1, Inr (progress_read progress1)))))"

section \<open>One record over a sequence of requests\<close>

text \<open>
  The state of one (user, subsection) key: its row if it exists, every cascade call made
  for it so far, and the limiter in front of the heartbeat endpoint.
\<close>

record system =
  row :: "SubsectionProgress option"
  cascade_log :: "cascade_call list"
  limiter :: limiter_state

definition get_remote_address :: "heartbeat_env \<Rightarrow> string" where
  "get_remote_address env = remote_address env"

text \<open>
  The heartbeat endpoint: the limiter decorator runs first, keyed by
  \<open>get_remote_address\<close>, and only an admitted request reaches the body.
\<close>

definition heartbeat_endpoint :: "heartbeat_env \<Rightarrow> system \<Rightarrow> system \<times> (error + HeartbeatResponse)" where
  "heartbeat_endpoint env s =
     (case limiter_hit (limiter s) (get_remote_address env) (now_limiter env) of
        (limiter1, admitted) \<Rightarrow>
          if \<not> admitted then (s\<lparr>limiter := limiter1\<rparr>, Inl RateLimited)
          else
            (case subsection_heartbeat env (row s) of
               ((row1, calls), res) \<Rightarrow>
                 (s\<lparr>row := row1, cascade_log := cascade_log s @ calls, limiter := limiter1\<rparr>, res)))"

definition start_endpoint :: "start_env \<Rightarrow> system \<Rightarrow> system \<times> SubsectionSessionResponse" where
  "start_endpoint env s =
     (case start_subsection_viewing env (row s) of
        (progress, res) \<Rightarrow> (s\<lparr>row := Some progress\<rparr>, res))"

definition complete_endpoint ::
  "datetime \<Rightarrow> datetime \<Rightarrow> system \<Rightarrow> system \<times> (error + SubsectionProgressRead)" where
  "complete_endpoint now_duration now_end s =
     (case complete_subsection_viewing now_duration now_end (row s) of
        (row1, res) \<Rightarrow> (s\<lparr>row := row1\<rparr>, res))"


datatype request = Start start_env | Heartbeat heartbeat_env | Complete datetime datetime

fun step :: "system \<Rightarrow> request \<Rightarrow> system" where
  "step s (Start env) = fst (start_endpoint env s)"
| "step s (Heartbeat env) = fst (heartbeat_endpoint env s)"
| "step s (Complete now_duration now_end) = fst (complete_endpoint now_duration now_end s)"

definition run :: "system \<Rightarrow> request list \<Rightarrow> system" where
  "run s reqs = foldl step s reqs"

definition time_spent :: "system \<Rightarrow> int" where
  "time_spent s = (case row s of None \<Rightarrow> 0 | Some progress \<Rightarrow> time_spent_seconds progress)"

definition completed :: "system \<Rightarrow> bool" where
  "completed s = (case row s of None \<Rightarrow> False | Some progress \<Rightarrow> is_completed progress)"

text \<open>One cascade is one \<open>update_section_progress\<close> followed by one \<open>update_topic_progress\<close>.\<close>

fun is_section_update :: "cascade_call \<Rightarrow> bool" where
  "is_section_update (UpdateSectionProgress u s) = True"
| "is_section_update (UpdateTopicProgress u t) = False"

definition cascades :: "system \<Rightarrow> nat" where
  "cascades s = length (filter is_section_update (cascade_log s))"

definition clock_forward :: "request \<Rightarrow> bool" where
  "clock_forward r = (case r of Heartbeat env \<Rightarrow> now_validate env \<le> now_handler env | _ \<Rightarrow> True)"

text \<open>
  The row an accepted heartbeat leaves behind and the seconds it added; \<open>None\<close> when the
  heartbeat is refused.
\<close>

definition heartbeat_row :: "heartbeat_env \<Rightarrow> SubsectionProgress \<Rightarrow> SubsectionProgress option" where
  "heartbeat_row env progress =
     (case subsection_heartbeat env (Some progress) of
        ((Some progress1, calls), Inr res) \<Rightarrow> Some progress1
      | _ \<Rightarrow> None)"

definition credit :: "heartbeat_env \<Rightarrow> SubsectionProgress \<Rightarrow> int option" where
  "credit env progress =
     (case heartbeat_row env progress of
        Some progress1 \<Rightarrow> Some (time_spent_seconds progress1 - time_spent_seconds progress)
      | None \<Rightarrow> None)"

section \<open>Concrete inputs\<close>

text \<open>
  A subsection with the default floor of 30 seconds and no recommended time, the row of
  user 7 for subsection 3 as \<open>start\<close> creates it, and a heartbeat at a given time from a
  given address with nothing suspicious around it.
\<close>

definition demo_subsection :: Subsection where
  "demo_subsection =
     \<lparr>section_id = 11, topic_id = 5, required_time_minutes = None, min_time_seconds = Some 30\<rparr>"

definition demo_row :: SubsectionProgress where
  "demo_row = get_or_create_subsection_progress 1 7 3 None"

text \<open>The same row in the middle of a viewing: 15 seconds credited, last heartbeat at 100.\<close>

definition viewing_row :: SubsectionProgress where
  "viewing_row =
     demo_row\<lparr>session_start_at := Some 90, last_activity_at := Some 100, time_spent_seconds := 15\<rparr>"

definition demo_heartbeat :: "string \<Rightarrow> datetime \<Rightarrow> heartbeat_env" where
  "demo_heartbeat address now =
     \<lparr>remote_address = address, current_user = 7, hb_subsection_id = 3, now_limiter = now,
      recent_activities = [], activities = None, recent_intervals = [], active_sessions = 1,
      now_validate = now, now_handler = now, hb_subsection = demo_subsection\<rparr>"

definition demo_start :: "datetime \<Rightarrow> start_env" where
  "demo_start now = \<lparr>st_new_id = 1, st_user = 7, st_subsection_id = 3, st_now = now\<rparr>"

definition demo_system :: system where
  "demo_system = \<lparr>row = None, cascade_log = [], limiter = Map.empty\<rparr>"

text \<open>Ten activities exactly 15 seconds apart.\<close>

definition regular_activities :: "datetime list" where
  "regular_activities = [0, 15, 30, 45, 60, 75, 90, 105, 120, 135]"

text \<open>
  A whole visit: start at 90, heartbeats at 100, 105 (too soon), 120 and 140, then complete
  twice. The states it goes through after the first heartbeat and after the third, and
  the state it ends in.
\<close>

definition demo_requests :: "request list" where
  "demo_requests =
     [Start (demo_start 90),
      Heartbeat (demo_heartbeat ''10.0.0.1'' 100),
      Heartbeat (demo_heartbeat ''10.0.0.1'' 105),
      Heartbeat (demo_heartbeat ''10.0.0.1'' 120),
      Heartbeat (demo_heartbeat ''10.0.0.1'' 140),
      Complete 150 150,
      Complete 151 151]"

definition demo_final :: system where
  "demo_final =
     \<lparr>row = Some (demo_row
        \<lparr>is_viewed := True, viewed_at := Some 120, time_spent_seconds := 55,
         last_activity_at := Some 140, is_completed := True, completion_percentage := 100,
         activity_sessions :=
           Some [\<lparr>session_start = 90, session_end = 150, session_duration = 60\<rparr>]\<rparr>),
      cascade_log = [UpdateSectionProgress 7 11, UpdateTopicProgress 7 5],
      limiter = [''10.0.0.1'' \<mapsto> (100, 4)]\<rparr>"

definition demo_midway :: system where
  "demo_midway =
     \<lparr>row = Some (demo_row\<lparr>session_start_at := Some 90, time_spent_seconds := 15,
                   last_activity_at := Some 100, completion_percentage := 50\<rparr>),
      cascade_log = [], limiter = [''10.0.0.1'' \<mapsto> (100, 1)]\<rparr>"

definition demo_completed :: system where
  "demo_completed =
     \<lparr>row = Some (demo_row\<lparr>session_start_at := Some 90, time_spent_seconds := 35,
                   last_activity_at := Some 120, completion_percentage := 100,
                   is_completed := True, is_viewed := True, viewed_at := Some 120\<rparr>),
      cascade_log = [UpdateSectionProgress 7 11, UpdateTopicProgress 7 5],
      limiter = [''10.0.0.1'' \<mapsto> (100, 2)]\<rparr>"

text \<open>
  The heartbeat at 120 of a user whose recent activities are the regular ones. Nothing
  binds the name \<open>activities\<close>, as in the source.
\<close>

definition regular_heartbeat :: heartbeat_env where
  "regular_heartbeat =
     (demo_heartbeat ''10.0.0.1'' 120)\<lparr>recent_activities := regular_activities\<rparr>"





section \<open>Results about the completion percentage\<close>

lemma completion_as_formula:
  "calculate_subsection_completion p s =
   spec_completion (time_spent_seconds p)
     (unset_if_zero (required_time_minutes s)) (unset_if_zero (min_time_seconds s))"
  by (auto simp add: calculate_subsection_completion_def spec_completion_def unset_if_zero_def
      py_or_def Let_def min.commute split: option.splits)

lemma completion_reads_time_only:
  "time_spent_seconds a = time_spent_seconds b \<Longrightarrow>
   calculate_subsection_completion a s = calculate_subsection_completion b s"
  by (simp add: completion_as_formula)

text \<open>
  C1, as stated: the percentage is the specification's formula of the time spent and the
  two policy fields, a field being unset exactly when it is null. This fails when a field
  holds 0: with \<open>min_time_seconds = 0\<close> and 15 seconds spent the formula gives 100, the
  code falls back to the floor of 30 and gives 50.
\<close>

theorem completion_zero_floor_counterexample:
  "calculate_subsection_completion (demo_row\<lparr>time_spent_seconds := 15\<rparr>)
     (demo_subsection\<lparr>min_time_seconds := Some 0\<rparr>) = 50
   \<and> spec_completion 15 None (Some 0) = 100"
  by (simp add: calculate_subsection_completion_def spec_completion_def py_or_def demo_row_def
      demo_subsection_def get_or_create_subsection_progress_def)

text \<open>
  C1, amended: the percentage depends on nothing but the time spent and the two policy
  fields, and it is the specification's formula once a field holding 0 is read as unset:
  without a recommended time (null or 0) it is 100 from the floor on (30 when the floor is
  null or 0) and \<open>100 * t / floor\<close> below it; with a recommended time of \<open>r\<close> minutes it is
  \<open>min(100, 100 * t / (60 * r))\<close>.
\<close>

theorem completion_formula_zero_is_unset:
  "calculate_subsection_completion p s =
   spec_completion (time_spent_seconds p)
     (unset_if_zero (required_time_minutes s)) (unset_if_zero (min_time_seconds s))"
  by (rule completion_as_formula)

section \<open>Auxiliary facts about the validator and the heartbeat body\<close>

lemma validate_refusal_keeps_row:
  "validate_activity p now ri n = (p1, w, False) \<Longrightarrow> p1 = p"
  by (auto simp: validate_activity_def Let_def split: option.splits if_splits)

lemma validate_acceptance:
  "validate_activity p now ri n = (p1, w, True) \<Longrightarrow>
     (p1 = p \<or> p1 = p\<lparr>session_start_at := Some now\<rparr>)
     \<and> (\<forall>l. last_activity_at p = Some l \<longrightarrow> 10 \<le> now - l)
     \<and> n \<le> 3"
  by (auto simp: validate_activity_def Let_def split: option.splits if_splits)

lemma heartbeat_refused:
  "subsection_heartbeat env found = ((r, calls), Inl e) \<Longrightarrow> r = found \<and> calls = []"
  by (auto simp: subsection_heartbeat_def Let_def heartbeat_response_def
      split: option.splits if_splits sum.splits bool.splits prod.splits
      dest: validate_refusal_keeps_row)

lemma heartbeat_reaches_body:
  assumes "subsection_heartbeat env found = ((r, calls), Inr res)"
  shows "\<exists>p p1 w. found = Some p
     \<and> detect_bot_activity (recent_activities env) (activities env) = Inr False
     \<and> validate_activity p (now_validate env) (recent_intervals env) (active_sessions env) = (p1, w, True)"
  using assms
  by (auto simp: subsection_heartbeat_def
      split: option.splits if_splits sum.splits bool.splits prod.splits)

lemma py_int_mono: "x \<le> y \<Longrightarrow> py_int x \<le> py_int y"
proof -
  assume xy: "x \<le> y"
  have a: "\<lfloor>x\<rfloor> \<le> \<lfloor>y\<rfloor>" using xy by (rule floor_mono)
  have b: "\<lceil>x\<rceil> \<le> \<lceil>y\<rceil>" using xy by (rule ceiling_mono)
  show ?thesis
  proof (cases "0 \<le> x")
    case True
    then show ?thesis using xy a by (simp add: py_int_def)
  next
    case False
    then have "\<lceil>x\<rceil> \<le> 0" by (simp add: ceiling_le_zero)
    show ?thesis
    proof (cases "0 \<le> y")
      case True
      then have "0 \<le> \<lfloor>y\<rfloor>" by simp
      with \<open>\<lceil>x\<rceil> \<le> 0\<close> have "\<lceil>x\<rceil> \<le> \<lfloor>y\<rfloor>" by linarith
      with False True show ?thesis by (simp add: py_int_def)
    next
      case y: False
      with False b show ?thesis by (simp add: py_int_def)
    qed
  qed
qed

lemma heartbeat_body:
  assumes "detect_bot_activity (recent_activities env) (activities env) = Inr False"
    and "validate_activity p (now_validate env) (recent_intervals env) (active_sessions env) = (p1, w, True)"
  shows "subsection_heartbeat env (Some p) =
     (let now = now_handler env;
          p2 = p1\<lparr>time_spent_seconds := time_spent_seconds p1
                    + py_int (case last_activity_at p1 of None \<Rightarrow> 15 | Some l \<Rightarrow> min (now - l) 60),
                  last_activity_at := Some now\<rparr>;
          p3 = p2\<lparr>completion_percentage := calculate_subsection_completion p2 (hb_subsection env)\<rparr>
      in if 100 \<le> completion_percentage p3 \<and> \<not> is_completed p3
         then (let p4 = p3\<lparr>is_completed := True, is_viewed := True, viewed_at := Some now\<rparr>
               in ((Some p4,
                    [UpdateSectionProgress (current_user env) (section_id (hb_subsection env)),
                     UpdateTopicProgress (current_user env) (topic_id (hb_subsection env))]),
                   Inr (heartbeat_response p4)))
         else ((Some p3, []), Inr (heartbeat_response p3)))"
  by (simp add: subsection_heartbeat_def assms Let_def)

lemma heartbeat_accepted:
  assumes "subsection_heartbeat env found = ((r, calls), Inr res)"
  shows "\<exists>p p1. found = Some p \<and> r = Some p1
     \<and> time_spent_seconds p1 = time_spent_seconds p
          + py_int (case last_activity_at p of None \<Rightarrow> 15 | Some l \<Rightarrow> min (now_handler env - l) 60)
     \<and> last_activity_at p1 = Some (now_handler env)
     \<and> (\<forall>l. last_activity_at p = Some l \<longrightarrow> 10 \<le> now_validate env - l)
     \<and> completion_percentage p1 = calculate_subsection_completion p1 (hb_subsection env)
     \<and> is_completed p1 = (is_completed p \<or> 100 \<le> completion_percentage p1)
     \<and> calls = (if \<not> is_completed p \<and> 100 \<le> completion_percentage p1
                 then [UpdateSectionProgress (current_user env) (section_id (hb_subsection env)),
                       UpdateTopicProgress (current_user env) (topic_id (hb_subsection env))]
                 else [])
     \<and> res = heartbeat_response p1"
proof -
  from heartbeat_reaches_body [OF assms] obtain p q w where
    found: "found = Some p"
    and bot: "detect_bot_activity (recent_activities env) (activities env) = Inr False"
    and val: "validate_activity p (now_validate env) (recent_intervals env) (active_sessions env) = (q, w, True)"
    by blast
  from validate_acceptance [OF val] have
    q: "q = p \<or> q = p\<lparr>session_start_at := Some (now_validate env)\<rparr>"
    and spacing: "\<forall>l. last_activity_at p = Some l \<longrightarrow> 10 \<le> now_validate env - l"
    by blast+
  from q have same:
    "time_spent_seconds q = time_spent_seconds p" "last_activity_at q = last_activity_at p"
    "is_completed q = is_completed p"
    by auto
  define t where "t = time_spent_seconds p
      + py_int (case last_activity_at p of None \<Rightarrow> 15 | Some l \<Rightarrow> min (now_handler env - l) 60)"
  define c where "c = calculate_subsection_completion (q\<lparr>time_spent_seconds := t\<rparr>) (hb_subsection env)"
  have calc: "\<And>x. time_spent_seconds x = t \<Longrightarrow>
      calculate_subsection_completion x (hb_subsection env) = c"
    unfolding c_def by (rule completion_reads_time_only) simp
  define q3 where "q3 = q\<lparr>time_spent_seconds := t, last_activity_at := Some (now_handler env),
      completion_percentage := c\<rparr>"
  define q4 where "q4 = q3\<lparr>is_completed := True, is_viewed := True, viewed_at := Some (now_handler env)\<rparr>"
  have body: "subsection_heartbeat env (Some p) =
      (if 100 \<le> c \<and> \<not> is_completed p
       then ((Some q4,
              [UpdateSectionProgress (current_user env) (section_id (hb_subsection env)),
               UpdateTopicProgress (current_user env) (topic_id (hb_subsection env))]),
             Inr (heartbeat_response q4))
       else ((Some q3, []), Inr (heartbeat_response q3)))"
    unfolding heartbeat_body [OF bot val] Let_def q4_def q3_def
    by (simp add: same t_def [symmetric] calc)
  have q3: "time_spent_seconds q3 = t" "last_activity_at q3 = Some (now_handler env)"
    "completion_percentage q3 = c" "is_completed q3 = is_completed p"
    by (simp_all add: q3_def same)
  have q4: "time_spent_seconds q4 = t" "last_activity_at q4 = Some (now_handler env)"
    "completion_percentage q4 = c" "is_completed q4"
    by (simp_all add: q4_def q3)
  show ?thesis
  proof (cases "100 \<le> c \<and> \<not> is_completed p")
    case True
    with assms [unfolded found body] have "r = Some q4" "calls = [UpdateSectionProgress (current_user env) (section_id (hb_subsection env)),
               UpdateTopicProgress (current_user env) (topic_id (hb_subsection env))]" "res = heartbeat_response q4"
      by simp_all
    with True found spacing q4 show ?thesis
      by (simp add: t_def [symmetric] calc)
  next
    case False
    with assms [unfolded found body] have "r = Some q3" "calls = []" "res = heartbeat_response q3"
      by simp_all
    with False found spacing q3 show ?thesis
      by (auto simp add: t_def [symmetric] calc)
  qed
qed

section \<open>Results about the time credit of a heartbeat\<close>

lemmas demo_defs = demo_heartbeat_def demo_row_def demo_subsection_def viewing_row_def
  demo_start_def demo_system_def get_or_create_subsection_progress_def

lemmas heartbeat_defs = heartbeat_row_def subsection_heartbeat_def detect_bot_activity_def
  validate_activity_def calculate_subsection_completion_def py_or_def py_int_def
  heartbeat_response_def Let_def

lemma heartbeat_row_Some:
  "heartbeat_row env p = Some p1 \<Longrightarrow>
   \<exists>calls res. subsection_heartbeat env (Some p) = ((Some p1, calls), Inr res)"
  by (auto simp: heartbeat_row_def split: prod.splits option.splits sum.splits)

lemma viewing_heartbeat:
  "heartbeat_row (demo_heartbeat ''10.0.0.1'' 112.5) viewing_row =
   Some (viewing_row\<lparr>time_spent_seconds := 27, last_activity_at := Some 112.5,
                      completion_percentage := 90\<rparr>)"
  by (simp add: heartbeat_defs demo_defs)

lemma first_heartbeat:
  "heartbeat_row (demo_heartbeat ''10.0.0.1'' 100) (demo_row\<lparr>session_start_at := Some 90\<rparr>) =
   Some (demo_row\<lparr>session_start_at := Some 90, time_spent_seconds := 15,
                   last_activity_at := Some 100, completion_percentage := 50\<rparr>)"
  by (simp add: heartbeat_defs demo_defs)

lemma accepted_credit:
  assumes "heartbeat_row env p = Some p1"
  shows "time_spent_seconds p1 = time_spent_seconds p
          + py_int (case last_activity_at p of None \<Rightarrow> 15 | Some l \<Rightarrow> min (now_handler env - l) 60)"
    and "last_activity_at p1 = Some (now_handler env)"
    and "\<forall>l. last_activity_at p = Some l \<longrightarrow> 10 \<le> now_validate env - l"
proof -
  from heartbeat_row_Some [OF assms] obtain calls res where
    "subsection_heartbeat env (Some p) = ((Some p1, calls), Inr res)" by blast
  from heartbeat_accepted [OF this]
  show "time_spent_seconds p1 = time_spent_seconds p
          + py_int (case last_activity_at p of None \<Rightarrow> 15 | Some l \<Rightarrow> min (now_handler env - l) 60)"
    and "last_activity_at p1 = Some (now_handler env)"
    and "\<forall>l. last_activity_at p = Some l \<longrightarrow> 10 \<le> now_validate env - l"
    by auto
qed

lemma credit_bounds:
  assumes "10 \<le> x"
  shows "10 \<le> py_int (min x 60)" and "py_int (min x 60) \<le> 60"
proof -
  have ge: "10 \<le> min x 60" using assms by simp
  have le: "min x 60 \<le> 60" by simp
  from py_int_mono [OF ge] show "10 \<le> py_int (min x 60)" by (simp add: py_int_def)
  from py_int_mono [OF le] show "py_int (min x 60) \<le> 60" by (simp add: py_int_def)
qed

text \<open>
  C10: an accepted heartbeat on a row whose \<open>last_activity_at\<close> is set adds the truncation
  \<open>int(min(now - last_activity_at, 60))\<close>, which lies between 10 and 60 because the
  validator has already refused every interval below 10 seconds; the first accepted
  heartbeat adds exactly 15; so the time spent stays an integer and grows strictly with
  every accepted heartbeat. The handler reads the clock after the validator did; the clock
  is taken not to run backwards between the two readings.
\<close>

theorem accepted_credit_is_truncation_between_10_and_60:
  assumes "heartbeat_row env p = Some p1" and "now_validate env \<le> now_handler env"
  shows "(\<forall>l. last_activity_at p = Some l \<longrightarrow>
            time_spent_seconds p1 - time_spent_seconds p = py_int (min (now_handler env - l) 60)
            \<and> 10 \<le> time_spent_seconds p1 - time_spent_seconds p
            \<and> time_spent_seconds p1 - time_spent_seconds p \<le> 60)
       \<and> (last_activity_at p = None \<longrightarrow> time_spent_seconds p1 - time_spent_seconds p = 15)
       \<and> time_spent_seconds p < time_spent_seconds p1"
proof (cases "last_activity_at p")
  case None
  with accepted_credit(1) [OF assms(1)] show ?thesis by (simp add: py_int_def)
next
  case (Some l)
  with accepted_credit(3) [OF assms(1)] assms(2) have "10 \<le> now_handler env - l" by auto
  from credit_bounds [OF this] accepted_credit(1) [OF assms(1)] Some show ?thesis by simp
qed

theorem accepted_credit_is_truncation_between_10_and_60_witness:
  "heartbeat_row (demo_heartbeat ''10.0.0.1'' 112.5) viewing_row =
     Some (viewing_row\<lparr>time_spent_seconds := 27, last_activity_at := Some 112.5,
                        completion_percentage := 90\<rparr>)
   \<and> last_activity_at viewing_row = Some 100
   \<and> py_int (min (112.5 - 100) 60) = 12
   \<and> time_spent_seconds viewing_row = 15
   \<and> heartbeat_row (demo_heartbeat ''10.0.0.1'' 100) (demo_row\<lparr>session_start_at := Some 90\<rparr>) =
     Some (demo_row\<lparr>session_start_at := Some 90, time_spent_seconds := 15,
                     last_activity_at := Some 100, completion_percentage := 50\<rparr>)
   \<and> last_activity_at (demo_row\<lparr>session_start_at := Some 90\<rparr>) = None
   \<and> time_spent_seconds demo_row = 0"
proof -
  have clock: "now_validate (demo_heartbeat a t) \<le> now_handler (demo_heartbeat a t)" for a t
    by (simp add: demo_heartbeat_def)
  from accepted_credit_is_truncation_between_10_and_60 [OF viewing_heartbeat clock]
    accepted_credit_is_truncation_between_10_and_60 [OF first_heartbeat clock]
  show ?thesis
    using viewing_heartbeat first_heartbeat
    by (simp add: demo_defs py_int_def)
qed

text \<open>
  C3, as stated: the credit of an accepted heartbeat is \<open>clamp(now - lastActivityAt, 0, 60)\<close>
  seconds. The code adds \<open>int(...)\<close> of that, so a heartbeat 12.5 seconds after the last
  one adds 12 seconds, not 12.5.
\<close>

theorem fractional_interval_counterexample:
  "credit (demo_heartbeat ''10.0.0.1'' 112.5) viewing_row = Some 12
   \<and> last_activity_at viewing_row = Some 100
   \<and> now_handler (demo_heartbeat ''10.0.0.1'' 112.5) = 112.5
   \<and> clamp (112.5 - 100) 0 60 = 12.5"
proof -
  have "credit (demo_heartbeat ''10.0.0.1'' 112.5) viewing_row = Some 12"
    unfolding credit_def viewing_heartbeat by (simp add: viewing_row_def)
  moreover have "last_activity_at viewing_row = Some 100"
    by (simp add: viewing_row_def)
  moreover have "now_handler (demo_heartbeat ''10.0.0.1'' 112.5) = 112.5"
    by (simp add: demo_heartbeat_def)
  moreover have "clamp (112.5 - 100) 0 60 = 12.5"
    by (simp add: clamp_def)
  ultimately show ?thesis by blast
qed

text \<open>
  C3, amended: an accepted heartbeat on a row whose \<open>last_activity_at\<close> is set adds the
  integer truncation of \<open>clamp(now - last_activity_at, 0, 60)\<close>; on a row without
  \<open>last_activity_at\<close> it adds the nominal 15 seconds whatever time has passed; afterwards
  \<open>last_activity_at\<close> is the handler's \<open>now\<close>.
\<close>

theorem accepted_credit_is_truncated_clamp:
  assumes "heartbeat_row env p = Some p1" and "now_validate env \<le> now_handler env"
  shows "(\<forall>l. last_activity_at p = Some l \<longrightarrow>
            time_spent_seconds p1 = time_spent_seconds p + py_int (clamp (now_handler env - l) 0 60))
       \<and> (last_activity_at p = None \<longrightarrow> time_spent_seconds p1 = time_spent_seconds p + 15)
       \<and> last_activity_at p1 = Some (now_handler env)"
proof (cases "last_activity_at p")
  case None
  with accepted_credit(1,2) [OF assms(1)] show ?thesis by (simp add: py_int_def)
next
  case (Some l)
  with accepted_credit(3) [OF assms(1)] assms(2) have "10 \<le> now_handler env - l" by auto
  then have "clamp (now_handler env - l) 0 60 = min (now_handler env - l) 60"
    by (simp add: clamp_def)
  with accepted_credit(1,2) [OF assms(1)] Some show ?thesis by simp
qed

theorem accepted_credit_is_truncated_clamp_witness:
  "heartbeat_row (demo_heartbeat ''10.0.0.1'' 112.5) viewing_row =
     Some (viewing_row\<lparr>time_spent_seconds := 27, last_activity_at := Some 112.5,
                        completion_percentage := 90\<rparr>)
   \<and> last_activity_at viewing_row = Some 100
   \<and> time_spent_seconds viewing_row + py_int (clamp (112.5 - 100) 0 60) = 27
   \<and> heartbeat_row (demo_heartbeat ''10.0.0.1'' 100) (demo_row\<lparr>session_start_at := Some 90\<rparr>) =
     Some (demo_row\<lparr>session_start_at := Some 90, time_spent_seconds := 15,
                     last_activity_at := Some 100, completion_percentage := 50\<rparr>)
   \<and> last_activity_at (demo_row\<lparr>session_start_at := Some 90\<rparr>) = None
   \<and> time_spent_seconds (demo_row\<lparr>session_start_at := Some 90\<rparr>) + 15 = 15"
proof -
  have clock: "now_validate (demo_heartbeat a t) \<le> now_handler (demo_heartbeat a t)" for a t
    by (simp add: demo_heartbeat_def)
  from accepted_credit_is_truncated_clamp [OF viewing_heartbeat clock]
    accepted_credit_is_truncated_clamp [OF first_heartbeat clock]
  show ?thesis
    using viewing_heartbeat first_heartbeat
    by (simp add: demo_defs py_int_def clamp_def)
qed

section \<open>Results about start and complete\<close>

text \<open>
  C9, as stated: \<open>start\<close> on a row whose session is open first closes that session as
  stale and appends it to the history. The code has no such step: the open session that
  began at 90 is overwritten by the one beginning at 200 and the history stays empty.
\<close>

theorem start_discards_open_session_counterexample:
  "session_start_at viewing_row = Some 90
   \<and> activity_sessions viewing_row = None
   \<and> session_start_at (fst (start_subsection_viewing (demo_start 200) (Some viewing_row))) = Some 200
   \<and> activity_sessions (fst (start_subsection_viewing (demo_start 200) (Some viewing_row))) = None"
  by (simp add: start_subsection_viewing_def demo_defs)

text \<open>
  C9, amended: \<open>start\<close> on an existing row, whether or not its session is open, only
  overwrites \<open>session_start_at\<close> with \<open>now\<close>; nothing is appended to the history, and
  \<open>last_activity_at\<close>, the time spent and the completion percentage are untouched. It
  returns the row's cumulative time and percentage.
\<close>

theorem start_only_overwrites_session_start:
  "start_subsection_viewing env (Some p) =
     (p\<lparr>session_start_at := Some (st_now env)\<rparr>,
      \<lparr>ss_session_id = progress_id p,
       ss_subsection_id = st_subsection_id env,
       ss_started_at = Some (st_now env),
       ss_time_spent_seconds = time_spent_seconds p,
       ss_completion_percentage = completion_percentage p\<rparr>)"
  by (simp add: start_subsection_viewing_def get_or_create_subsection_progress_def)

text \<open>
  C5, as stated: a heartbeat on a row without an open session, and a second \<open>complete\<close>,
  both fail with \<open>SessionNotFound\<close>. After \<open>start\<close> and \<open>complete\<close> the row exists with
  \<open>session_start_at\<close> null; the next heartbeat is accepted and credits 15 seconds, and a
  second \<open>complete\<close> succeeds and returns the row as it is.
\<close>

lemmas endpoint_defs = run_def heartbeat_endpoint_def start_endpoint_def complete_endpoint_def
  start_subsection_viewing_def complete_subsection_viewing_def limiter_hit_def
  get_remote_address_def progress_read_def




section \<open>Results about the validator\<close>

text \<open>
  C6: an interval below 10 seconds is refused as too frequent; an interval in the 14.9 to
  15.1 band with every recent interval in the band is refused as suspiciously regular; more
  than 3 active sessions are refused, as too many sessions when the interval checks pass;
  every refusal leaves the row as it was, in the validator and in the heartbeat that
  answers 429; a session open for more than 7200 seconds is not refused: its
  \<open>session_start_at\<close> is reset to \<open>now\<close> and the heartbeat goes through.
\<close>

theorem validator_contract:
  "(\<forall>l. last_activity_at p = Some l \<and> now - l < 10 \<longrightarrow>
        validate_activity p now recent n = (p, Some TooFrequent, False))
   \<and> (\<forall>l. last_activity_at p = Some l \<and> in_band (now - l) \<and> list_all in_band recent \<longrightarrow>
        validate_activity p now recent n = (p, Some SuspiciousRegularity, False))
   \<and> (3 < n \<longrightarrow> fst (validate_activity p now recent n) = p
                 \<and> \<not> snd (snd (validate_activity p now recent n)))
   \<and> (3 < n \<and> interval_check_passes p now recent \<longrightarrow>
        validate_activity p now recent n = (p, Some TooManyActiveSessions, False))
   \<and> (\<forall>started. interval_check_passes p now recent \<and> n \<le> 3
         \<and> session_start_at p = Some started \<and> 7200 < now - started \<longrightarrow>
        validate_activity p now recent n = (p\<lparr>session_start_at := Some now\<rparr>, Some SessionTooLong, True))
   \<and> (\<forall>p1 w. detect_bot_activity (recent_activities env) (activities env) = Inr False
         \<and> validate_activity p (now_validate env) (recent_intervals env) (active_sessions env)
             = (p1, w, False) \<longrightarrow>
        subsection_heartbeat env (Some p) = ((Some p, []), Inl TooManyRequests))
   \<and> (\<forall>started. detect_bot_activity (recent_activities env) (activities env) = Inr False
         \<and> interval_check_passes p (now_validate env) (recent_intervals env) \<and> active_sessions env \<le> 3
         \<and> session_start_at p = Some started \<and> 7200 < now_validate env - started \<longrightarrow>
        (\<exists>p2. heartbeat_row env p = Some p2 \<and> session_start_at p2 = Some (now_validate env)))"
  (is "?A \<and> ?B \<and> ?C \<and> ?D \<and> ?E \<and> ?F \<and> ?G")
proof -
  have A: ?A
    by (auto simp: validate_activity_def)
  have B: ?B
    by (auto simp: validate_activity_def in_band_def [abs_def])
  have C: ?C
    by (auto simp: validate_activity_def Let_def split: option.splits)
  have D: ?D
    by (auto simp: validate_activity_def interval_check_passes_def in_band_def [abs_def] Let_def
        split: option.splits)
  have E: ?E
    by (auto simp: validate_activity_def interval_check_passes_def in_band_def [abs_def] Let_def
        split: option.splits)
  have F: ?F
    by (auto simp: subsection_heartbeat_def dest: validate_refusal_keeps_row)
  have G: ?G
  proof (intro allI impI, elim conjE)
    fix started
    assume bot: "detect_bot_activity (recent_activities env) (activities env) = Inr False"
      and ok: "interval_check_passes p (now_validate env) (recent_intervals env)"
        "active_sessions env \<le> 3"
      and open_session: "session_start_at p = Some started" "7200 < now_validate env - started"
    define q where "q = p\<lparr>session_start_at := Some (now_validate env)\<rparr>"
    from E ok open_session have val:
      "validate_activity p (now_validate env) (recent_intervals env) (active_sessions env) =
        (q, Some SessionTooLong, True)"
      unfolding q_def
      by (auto simp: validate_activity_def interval_check_passes_def in_band_def [abs_def] Let_def
        split: option.splits)
    have "\<exists>p2. heartbeat_row env p = Some p2 \<and> session_start_at p2 = session_start_at q"
      unfolding heartbeat_row_def heartbeat_body [OF bot val]
      by (simp add: Let_def)
    then show "\<exists>p2. heartbeat_row env p = Some p2 \<and> session_start_at p2 = Some (now_validate env)"
      by (simp add: q_def)
  qed
  from A B C D E F G show ?thesis by blast
qed

theorem validator_contract_witness:
  "last_activity_at viewing_row = Some 100
   \<and> validate_activity viewing_row 105 [] 1 = (viewing_row, Some TooFrequent, False)
   \<and> in_band (115 - 100) \<and> list_all in_band [15, 15, 15, 15, 15]
   \<and> validate_activity viewing_row 115 [15, 15, 15, 15, 15] 1 =
        (viewing_row, Some SuspiciousRegularity, False)
   \<and> interval_check_passes viewing_row 130 []
   \<and> validate_activity viewing_row 130 [] 4 = (viewing_row, Some TooManyActiveSessions, False)
   \<and> session_start_at viewing_row = Some 90
   \<and> interval_check_passes viewing_row 8000 []
   \<and> validate_activity viewing_row 8000 [] 1 =
        (viewing_row\<lparr>session_start_at := Some 8000\<rparr>, Some SessionTooLong, True)
   \<and> subsection_heartbeat (demo_heartbeat ''10.0.0.1'' 105) (Some viewing_row) =
        ((Some viewing_row, []), Inl TooManyRequests)
   \<and> (\<exists>p2. heartbeat_row (demo_heartbeat ''10.0.0.1'' 8000) viewing_row = Some p2
            \<and> session_start_at p2 = Some 8000)"
proof -
  have last: "last_activity_at viewing_row = Some 100"
    and started: "session_start_at viewing_row = Some 90"
    by (simp_all add: viewing_row_def)
  have band: "in_band (115 - 100)" "list_all in_band [15, 15, 15, 15, 15]"
    by (simp_all add: in_band_def)
  have pass: "interval_check_passes viewing_row 130 []" "interval_check_passes viewing_row 8000 []"
    by (simp_all add: interval_check_passes_def in_band_def last)
  have bot: "detect_bot_activity (recent_activities (demo_heartbeat a t))
      (activities (demo_heartbeat a t)) = Inr False" for a t
    by (simp add: detect_bot_activity_def demo_heartbeat_def)
  have env: "now_validate (demo_heartbeat a t) = t" "recent_intervals (demo_heartbeat a t) = []"
    "active_sessions (demo_heartbeat a t) = 1" for a t
    by (simp_all add: demo_heartbeat_def)
  note c = validator_contract
  have 1: "validate_activity viewing_row 105 [] 1 = (viewing_row, Some TooFrequent, False)"
    using c [where p = viewing_row and now = 105 and recent = "[]" and n = 1] last by simp
  have 2: "validate_activity viewing_row 115 [15, 15, 15, 15, 15] 1 =
        (viewing_row, Some SuspiciousRegularity, False)"
    using c [where p = viewing_row and now = 115 and recent = "[15, 15, 15, 15, 15]" and n = 1]
      last band by simp
  have 3: "validate_activity viewing_row 130 [] 4 = (viewing_row, Some TooManyActiveSessions, False)"
    using c [where p = viewing_row and now = 130 and recent = "[]" and n = 4] pass by simp
  have 4: "validate_activity viewing_row 8000 [] 1 =
        (viewing_row\<lparr>session_start_at := Some 8000\<rparr>, Some SessionTooLong, True)"
    using c [where p = viewing_row and now = 8000 and recent = "[]" and n = 1] pass started by simp
  have 5: "subsection_heartbeat (demo_heartbeat ''10.0.0.1'' 105) (Some viewing_row) =
        ((Some viewing_row, []), Inl TooManyRequests)"
    using c [where p = viewing_row and env = "demo_heartbeat ''10.0.0.1'' 105"] bot 1
    by (simp add: env)
  have 6: "\<exists>p2. heartbeat_row (demo_heartbeat ''10.0.0.1'' 8000) viewing_row = Some p2
            \<and> session_start_at p2 = Some 8000"
    using c [where p = viewing_row and env = "demo_heartbeat ''10.0.0.1'' 8000"] bot pass started
    by (simp add: env)
  from last started band pass 1 2 3 4 5 6 show ?thesis by blast
qed

section \<open>Results over sequences of requests\<close>

declare step.simps [simp del]

lemma limiter_refusal_keeps_state:
  "limiter_hit st k now = (st1, False) \<Longrightarrow> st1 = st"
  by (auto simp: limiter_hit_def split: option.splits prod.splits if_splits)

lemma heartbeat_endpoint_cases:
  obtains (limited) "heartbeat_endpoint env s = (s, Inl RateLimited)"
  | (refused) e lim where
      "heartbeat_endpoint env s = (s\<lparr>limiter := lim\<rparr>, Inl e)"
      "subsection_heartbeat env (row s) = ((row s, []), Inl e)"
  | (accepted) p p1 calls res lim where
      "row s = Some p"
      "subsection_heartbeat env (Some p) = ((Some p1, calls), Inr res)"
      "heartbeat_endpoint env s =
         (s\<lparr>row := Some p1, cascade_log := cascade_log s @ calls, limiter := lim\<rparr>, Inr res)"
proof (cases "limiter_hit (limiter s) (get_remote_address env) (now_limiter env)")
  case (Pair lim ok)
  show thesis
  proof (cases ok)
    case False
    with Pair limiter_refusal_keeps_state [of "limiter s" _ _ lim] have "lim = limiter s" by simp
    with Pair False have "heartbeat_endpoint env s = (s, Inl RateLimited)"
      by (simp add: heartbeat_endpoint_def)
    then show thesis by (rule limited)
  next
    case True
    obtain r calls res where body: "subsection_heartbeat env (row s) = ((r, calls), res)"
      by (metis prod.exhaust)
    with Pair True have ep: "heartbeat_endpoint env s =
        (s\<lparr>row := r, cascade_log := cascade_log s @ calls, limiter := lim\<rparr>, res)"
      by (simp add: heartbeat_endpoint_def)
    show thesis
    proof (cases res)
      case (Inl e)
      with body heartbeat_refused [of env "row s" r calls e] have "r = row s" "calls = []" by auto
      with ep body Inl show thesis by (intro refused [of lim e]) simp_all
    next
      case (Inr resp)
      with body heartbeat_accepted [of env "row s" r calls resp]
      obtain p p1 where "row s = Some p" "r = Some p1" by auto
      with ep body Inr show thesis by (intro accepted [of p p1 calls resp lim]) simp_all
    qed
  qed
qed

lemma start_step:
  "time_spent (step s (Start env)) = time_spent s"
  "completed (step s (Start env)) = completed s"
  "cascades (step s (Start env)) = cascades s"
  by (simp_all add: step.simps start_endpoint_def start_subsection_viewing_def time_spent_def completed_def
      cascades_def get_or_create_subsection_progress_def Let_def split: option.splits)

lemma complete_step:
  "time_spent (step s (Complete a b)) = time_spent s"
  "completed (step s (Complete a b)) = completed s"
  "cascades (step s (Complete a b)) = cascades s"
  by (simp_all add: step.simps complete_endpoint_def complete_subsection_viewing_def time_spent_def completed_def
      cascades_def Let_def split: option.splits)

lemma heartbeat_refused_step:
  assumes "isl (snd (heartbeat_endpoint env s))"
  shows "row (step s (Heartbeat env)) = row s"
    and "cascade_log (step s (Heartbeat env)) = cascade_log s"
  using assms by (cases env s rule: heartbeat_endpoint_cases; simp add: step.simps)+

lemma heartbeat_accepted_step:
  assumes "\<not> isl (snd (heartbeat_endpoint env s))"
  obtains p p1 calls res where
    "row s = Some p"
    "subsection_heartbeat env (Some p) = ((Some p1, calls), Inr res)"
    "row (step s (Heartbeat env)) = Some p1"
    "cascade_log (step s (Heartbeat env)) = cascade_log s @ calls"
  using assms by (cases env s rule: heartbeat_endpoint_cases) (auto simp: step.simps)

lemma call_count:
  "length (filter is_section_update
     (if c then [UpdateSectionProgress u a, UpdateTopicProgress u b] else [])) = (if c then 1 else 0)"
  by simp

lemma heartbeat_step_completion:
  "(completed s \<longrightarrow> completed (step s (Heartbeat env)))
   \<and> cascades (step s (Heartbeat env)) =
       cascades s + (if completed (step s (Heartbeat env)) \<and> \<not> completed s then 1 else 0)"
proof (cases "isl (snd (heartbeat_endpoint env s))")
  case True
  from heartbeat_refused_step [OF True] show ?thesis
    by (simp add: completed_def cascades_def)
next
  case False
  then obtain p p1 calls res where
    p: "row s = Some p" and body: "subsection_heartbeat env (Some p) = ((Some p1, calls), Inr res)"
    and r: "row (step s (Heartbeat env)) = Some p1"
    and l: "cascade_log (step s (Heartbeat env)) = cascade_log s @ calls"
    by (rule heartbeat_accepted_step)
  from heartbeat_accepted [OF body] have
    fin: "is_completed p1 = (is_completed p \<or> 100 \<le> completion_percentage p1)"
    and calls: "calls = (if \<not> is_completed p \<and> 100 \<le> completion_percentage p1
                 then [UpdateSectionProgress (current_user env) (section_id (hb_subsection env)),
                       UpdateTopicProgress (current_user env) (topic_id (hb_subsection env))]
                 else [])"
    by auto
  have n: "length (filter is_section_update calls)
      = (if \<not> is_completed p \<and> 100 \<le> completion_percentage p1 then 1 else 0)"
    unfolding calls by (rule call_count)
  have before: "completed s = is_completed p"
    by (simp add: completed_def p)
  have after: "completed (step s (Heartbeat env)) = is_completed p1"
    by (simp add: completed_def r)
  have count: "cascades (step s (Heartbeat env)) = cascades s + length (filter is_section_update calls)"
    by (simp add: cascades_def l)
  show ?thesis
    unfolding before after count n fin by simp
qed

lemma step_completion:
  "(completed s \<longrightarrow> completed (step s r))
   \<and> cascades (step s r) = cascades s + (if completed (step s r) \<and> \<not> completed s then 1 else 0)"
proof (cases r)
  case (Start env)
  then show ?thesis using start_step(2,3) [of s env] by simp
next
  case (Heartbeat env)
  then show ?thesis using heartbeat_step_completion [of s env] by simp
next
  case (Complete a b)
  then show ?thesis using complete_step(2,3) [of s a b] by simp
qed

lemma run_Cons: "run s (r # reqs) = run (step s r) reqs"
  by (simp add: run_def)

lemma run_completion:
  "(completed s \<longrightarrow> completed (run s reqs))
   \<and> cascades (run s reqs) = cascades s + (if completed (run s reqs) \<and> \<not> completed s then 1 else 0)"
proof (induction reqs arbitrary: s)
  case Nil
  show ?case by (simp add: run_def)
next
  case (Cons r reqs)
  from step_completion [of s r] have
    a1: "completed s \<longrightarrow> completed (step s r)"
    and a2: "cascades (step s r) = cascades s + (if completed (step s r) \<and> \<not> completed s then 1 else 0)"
    by blast+
  from Cons.IH [of "step s r"] have
    b1: "completed (step s r) \<longrightarrow> completed (run (step s r) reqs)"
    and b2: "cascades (run (step s r) reqs) =
        cascades (step s r) + (if completed (run (step s r) reqs) \<and> \<not> completed (step s r) then 1 else 0)"
    by blast+
  show ?case
    unfolding run_Cons b2 a2 using a1 b1 by (cases "completed s"; cases "completed (step s r)") simp_all
qed

lemma accepted_credit_grows:
  assumes "heartbeat_row env p = Some p1" and "now_validate env \<le> now_handler env"
  shows "time_spent_seconds p < time_spent_seconds p1"
proof (cases "last_activity_at p")
  case None
  with accepted_credit(1) [OF assms(1)] show ?thesis by (simp add: py_int_def)
next
  case (Some l)
  with accepted_credit(3) [OF assms(1)] assms(2) have "10 \<le> now_handler env - l" by auto
  from credit_bounds(1) [OF this] accepted_credit(1) [OF assms(1)] Some show ?thesis by simp
qed

lemma heartbeat_step_time:
  assumes "now_validate env \<le> now_handler env"
  shows "time_spent s \<le> time_spent (step s (Heartbeat env))"
proof (cases "isl (snd (heartbeat_endpoint env s))")
  case True
  from heartbeat_refused_step(1) [OF True] show ?thesis by (simp add: time_spent_def)
next
  case False
  then obtain p p1 calls res where
    p: "row s = Some p" and body: "subsection_heartbeat env (Some p) = ((Some p1, calls), Inr res)"
    and r: "row (step s (Heartbeat env)) = Some p1"
    by (rule heartbeat_accepted_step)
  from body have "heartbeat_row env p = Some p1" by (simp add: heartbeat_row_def)
  from accepted_credit_grows [OF this assms]
  show ?thesis by (simp add: time_spent_def p r)
qed

lemma demo_run: "run demo_system demo_requests = demo_final"
  by (simp add: demo_requests_def demo_final_def endpoint_defs heartbeat_defs demo_defs step.simps eval_nat_numeral)

lemma step_time:
  "clock_forward r \<Longrightarrow> time_spent s \<le> time_spent (step s r)"
proof (cases r)
  case (Start env)
  then show ?thesis using start_step(1) [of s env] by simp
next
  case (Heartbeat env)
  assume "clock_forward r"
  with Heartbeat have "now_validate env \<le> now_handler env" by (simp add: clock_forward_def)
  from heartbeat_step_time [OF this] Heartbeat show ?thesis by simp
next
  case (Complete a b)
  then show ?thesis using complete_step(1) [of s a b] by simp
qed

lemma run_time:
  "list_all clock_forward reqs \<Longrightarrow> time_spent s \<le> time_spent (run s reqs)"
proof (induction reqs arbitrary: s)
  case Nil
  show ?case by (simp add: run_def)
next
  case (Cons r reqs)
  from Cons.prems have "clock_forward r" "list_all clock_forward reqs" by simp_all
  from step_time [OF this(1), of s] Cons.IH [OF this(2), of "step s r"]
  show ?case unfolding run_Cons by simp
qed

text \<open>
  C4: over any sequence of start, heartbeat and complete requests the time spent never
  decreases: start and complete leave it as it is, so does every refused heartbeat (rate
  limited, flagged, without a row, or refused by the validator), and an accepted heartbeat
  adds a credit that is not negative. Within one heartbeat the handler's clock reading is
  taken not to be earlier than the validator's.
\<close>

theorem time_spent_never_decreases:
  "(list_all clock_forward reqs \<longrightarrow> time_spent s \<le> time_spent (run s reqs))
   \<and> time_spent (step s (Start senv)) = time_spent s
   \<and> time_spent (step s (Complete now_duration now_end)) = time_spent s
   \<and> (isl (snd (heartbeat_endpoint env s)) \<longrightarrow>
        time_spent (step s (Heartbeat env)) = time_spent s)
   \<and> (now_validate env \<le> now_handler env \<longrightarrow>
        time_spent s \<le> time_spent (step s (Heartbeat env)))"
  using run_time [of reqs s] start_step(1) [of s senv] complete_step(1) [of s now_duration now_end]
    heartbeat_refused_step(1) [of env s] heartbeat_step_time [of env s]
  by (simp add: time_spent_def)

lemma demo_after_first:
  "run demo_system [Start (demo_start 90), Heartbeat (demo_heartbeat ''10.0.0.1'' 100)] =
     \<lparr>row = Some (demo_row\<lparr>session_start_at := Some 90, time_spent_seconds := 15,
                   last_activity_at := Some 100, completion_percentage := 50\<rparr>),
      cascade_log = [], limiter = [''10.0.0.1'' \<mapsto> (100, 1)]\<rparr>"
  by (simp add: endpoint_defs heartbeat_defs demo_defs step.simps)

theorem time_spent_never_decreases_witness:
  "list_all clock_forward demo_requests
   \<and> time_spent demo_system = 0
   \<and> time_spent (run demo_system demo_requests) = 55
   \<and> isl (snd (heartbeat_endpoint (demo_heartbeat ''10.0.0.1'' 105)
        (run demo_system [Start (demo_start 90), Heartbeat (demo_heartbeat ''10.0.0.1'' 100)])))
   \<and> time_spent (step (run demo_system [Start (demo_start 90), Heartbeat (demo_heartbeat ''10.0.0.1'' 100)])
        (Heartbeat (demo_heartbeat ''10.0.0.1'' 105))) = 15
   \<and> now_validate (demo_heartbeat ''10.0.0.1'' 120) \<le> now_handler (demo_heartbeat ''10.0.0.1'' 120)
   \<and> 15 \<le> time_spent (step (run demo_system [Start (demo_start 90), Heartbeat (demo_heartbeat ''10.0.0.1'' 100)])
        (Heartbeat (demo_heartbeat ''10.0.0.1'' 120)))"
proof -
  let ?s = "run demo_system [Start (demo_start 90), Heartbeat (demo_heartbeat ''10.0.0.1'' 100)]"
  have clocks: "list_all clock_forward demo_requests"
    by (simp add: demo_requests_def clock_forward_def demo_heartbeat_def)
  have t0: "time_spent demo_system = 0"
    by (simp add: time_spent_def demo_system_def)
  have t1: "time_spent (run demo_system demo_requests) = 55"
    unfolding demo_run by (simp add: time_spent_def demo_final_def demo_row_def)
  have t2: "time_spent ?s = 15"
    unfolding demo_after_first by (simp add: time_spent_def)
  have refused: "isl (snd (heartbeat_endpoint (demo_heartbeat ''10.0.0.1'' 105) ?s))"
    unfolding demo_after_first
    by (simp add: endpoint_defs heartbeat_defs demo_defs)
  have clock: "now_validate (demo_heartbeat ''10.0.0.1'' 120) \<le> now_handler (demo_heartbeat ''10.0.0.1'' 120)"
    by (simp add: demo_heartbeat_def)
  note t = time_spent_never_decreases
  from t [of demo_requests demo_system] t [of _ ?s _ _ _ "demo_heartbeat ''10.0.0.1'' 105"]
    t [of _ ?s _ _ _ "demo_heartbeat ''10.0.0.1'' 120"]
  show ?thesis using clocks t0 t1 t2 refused clock by simp
qed

text \<open>
  C2: the accepted heartbeat that brings a row not yet completed to 100 percent sets
  \<open>is_completed\<close> and makes the two cascade calls (section, then topic) once; any other
  accepted heartbeat makes none and keeps \<open>is_completed\<close>, and a heartbeat on a completed
  row is otherwise processed like any other (time credit, \<open>last_activity_at\<close>,
  percentage). Over any sequence of requests \<open>is_completed\<close> never goes back to false
  and the number of cascades grows by one exactly if the row became completed.
\<close>

theorem cascade_fires_once:
  "(completed s \<longrightarrow> completed (run s reqs))
   \<and> cascades (run s reqs) = cascades s + (if completed (run s reqs) \<and> \<not> completed s then 1 else 0)
   \<and> (\<forall>p p1. row s = Some p \<and> \<not> isl (snd (heartbeat_endpoint env s))
         \<and> row (step s (Heartbeat env)) = Some p1 \<longrightarrow>
        (if \<not> is_completed p \<and> 100 \<le> completion_percentage p1
         then is_completed p1
              \<and> cascade_log (step s (Heartbeat env)) = cascade_log s @
                  [UpdateSectionProgress (current_user env) (section_id (hb_subsection env)),
                   UpdateTopicProgress (current_user env) (topic_id (hb_subsection env))]
         else is_completed p1 = is_completed p
              \<and> cascade_log (step s (Heartbeat env)) = cascade_log s)
        \<and> time_spent_seconds p1 = time_spent_seconds p
             + py_int (case last_activity_at p of None \<Rightarrow> 15
                       | Some l \<Rightarrow> min (now_handler env - l) 60)
        \<and> last_activity_at p1 = Some (now_handler env)
        \<and> completion_percentage p1 = calculate_subsection_completion p1 (hb_subsection env))"
  (is "?A \<and> ?B \<and> ?C")
proof -
  have AB: "?A \<and> ?B" by (rule run_completion)
  have C: ?C
  proof (intro allI impI, elim conjE)
    fix p p1
    assume p: "row s = Some p" and ok: "\<not> isl (snd (heartbeat_endpoint env s))"
      and p1: "row (step s (Heartbeat env)) = Some p1"
    from ok obtain q q1 calls res where
      q: "row s = Some q" and body: "subsection_heartbeat env (Some q) = ((Some q1, calls), Inr res)"
      and r: "row (step s (Heartbeat env)) = Some q1"
      and l: "cascade_log (step s (Heartbeat env)) = cascade_log s @ calls"
      by (rule heartbeat_accepted_step)
    from p q p1 r have same: "q = p" "q1 = p1" by simp_all
    from heartbeat_accepted [OF body] same have
      "time_spent_seconds p1 = time_spent_seconds p
          + py_int (case last_activity_at p of None \<Rightarrow> 15 | Some l \<Rightarrow> min (now_handler env - l) 60)"
      "last_activity_at p1 = Some (now_handler env)"
      "completion_percentage p1 = calculate_subsection_completion p1 (hb_subsection env)"
      "is_completed p1 = (is_completed p \<or> 100 \<le> completion_percentage p1)"
      "calls = (if \<not> is_completed p \<and> 100 \<le> completion_percentage p1
                 then [UpdateSectionProgress (current_user env) (section_id (hb_subsection env)),
                       UpdateTopicProgress (current_user env) (topic_id (hb_subsection env))]
                 else [])"
      by auto
    then show "(if \<not> is_completed p \<and> 100 \<le> completion_percentage p1
         then is_completed p1
              \<and> cascade_log (step s (Heartbeat env)) = cascade_log s @
                  [UpdateSectionProgress (current_user env) (section_id (hb_subsection env)),
                   UpdateTopicProgress (current_user env) (topic_id (hb_subsection env))]
         else is_completed p1 = is_completed p
              \<and> cascade_log (step s (Heartbeat env)) = cascade_log s)
        \<and> time_spent_seconds p1 = time_spent_seconds p
             + py_int (case last_activity_at p of None \<Rightarrow> 15
                       | Some l \<Rightarrow> min (now_handler env - l) 60)
        \<and> last_activity_at p1 = Some (now_handler env)
        \<and> completion_percentage p1 = calculate_subsection_completion p1 (hb_subsection env)"
      using l by auto
  qed
  from AB C show ?thesis by blast
qed

lemma demo_midway_heartbeat:
  "heartbeat_endpoint (demo_heartbeat ''10.0.0.1'' 120) demo_midway =
     (demo_completed,
      Inr \<lparr>hb_time_spent_seconds = 35, hb_completion_percentage = 100, hb_is_completed = True,
           next_heartbeat_in_seconds = 15\<rparr>)"
  by (simp add: demo_midway_def demo_completed_def endpoint_defs heartbeat_defs demo_defs eval_nat_numeral)

lemma demo_completed_heartbeat:
  "heartbeat_endpoint (demo_heartbeat ''10.0.0.1'' 140) demo_completed =
     (demo_completed
        \<lparr>row := Some (demo_row\<lparr>session_start_at := Some 90, time_spent_seconds := 55,
                   last_activity_at := Some 140, completion_percentage := 100,
                   is_completed := True, is_viewed := True, viewed_at := Some 120\<rparr>),
         limiter := [''10.0.0.1'' \<mapsto> (100, 3)]\<rparr>,
      Inr \<lparr>hb_time_spent_seconds = 55, hb_completion_percentage = 100, hb_is_completed = True,
           next_heartbeat_in_seconds = 15\<rparr>)"
  by (simp add: demo_completed_def endpoint_defs heartbeat_defs demo_defs eval_nat_numeral)

theorem cascade_fires_once_witness:
  "\<not> completed demo_system
   \<and> completed (run demo_system demo_requests)
   \<and> cascades demo_system = 0
   \<and> cascades (run demo_system demo_requests) = 1
   \<and> completed demo_completed
   \<and> completed (run demo_completed [Start (demo_start 200)])
   \<and> \<not> isl (snd (heartbeat_endpoint (demo_heartbeat ''10.0.0.1'' 120) demo_midway))
   \<and> cascade_log demo_midway = []
   \<and> cascade_log (step demo_midway (Heartbeat (demo_heartbeat ''10.0.0.1'' 120))) =
        [UpdateSectionProgress 7 11, UpdateTopicProgress 7 5]
   \<and> \<not> isl (snd (heartbeat_endpoint (demo_heartbeat ''10.0.0.1'' 140) demo_completed))
   \<and> cascade_log (step demo_completed (Heartbeat (demo_heartbeat ''10.0.0.1'' 140))) =
        cascade_log demo_completed"
proof -
  note c = cascade_fires_once
  have s0: "\<not> completed demo_system" "cascades demo_system = 0"
    by (simp_all add: completed_def cascades_def demo_system_def)
  have s9: "completed (run demo_system demo_requests)"
    unfolding demo_run by (simp add: completed_def demo_final_def)
  have n: "cascades (run demo_system demo_requests) = 1"
    using c [of demo_system demo_requests] s0 s9 by simp
  have k: "completed demo_completed"
    by (simp add: completed_def demo_completed_def)
  have k': "completed (run demo_completed [Start (demo_start 200)])"
    using c [of demo_completed "[Start (demo_start 200)]"] k by simp
  have a1: "\<not> isl (snd (heartbeat_endpoint (demo_heartbeat ''10.0.0.1'' 120) demo_midway))"
    unfolding demo_midway_heartbeat by simp
  have r1: "row (step demo_midway (Heartbeat (demo_heartbeat ''10.0.0.1'' 120))) =
      Some (demo_row\<lparr>session_start_at := Some 90, time_spent_seconds := 35,
                   last_activity_at := Some 120, completion_percentage := 100,
                   is_completed := True, is_viewed := True, viewed_at := Some 120\<rparr>)"
    unfolding step.simps demo_midway_heartbeat by (simp add: demo_completed_def)
  have m: "row demo_midway = Some (demo_row\<lparr>session_start_at := Some 90, time_spent_seconds := 15,
                   last_activity_at := Some 100, completion_percentage := 50\<rparr>)"
    "cascade_log demo_midway = []"
    by (simp_all add: demo_midway_def)
  have l1: "cascade_log (step demo_midway (Heartbeat (demo_heartbeat ''10.0.0.1'' 120))) =
        [UpdateSectionProgress 7 11, UpdateTopicProgress 7 5]"
    using c [of demo_midway _ "demo_heartbeat ''10.0.0.1'' 120"] a1 r1 m
    by (simp add: demo_defs)
  have a2: "\<not> isl (snd (heartbeat_endpoint (demo_heartbeat ''10.0.0.1'' 140) demo_completed))"
    unfolding demo_completed_heartbeat by simp
  have r2: "row (step demo_completed (Heartbeat (demo_heartbeat ''10.0.0.1'' 140))) =
      Some (demo_row\<lparr>session_start_at := Some 90, time_spent_seconds := 55,
                   last_activity_at := Some 140, completion_percentage := 100,
                   is_completed := True, is_viewed := True, viewed_at := Some 120\<rparr>)"
    unfolding step.simps demo_completed_heartbeat by simp
  have d: "row demo_completed = Some (demo_row\<lparr>session_start_at := Some 90, time_spent_seconds := 35,
                   last_activity_at := Some 120, completion_percentage := 100,
                   is_completed := True, is_viewed := True, viewed_at := Some 120\<rparr>)"
    by (simp add: demo_completed_def)
  have l2: "cascade_log (step demo_completed (Heartbeat (demo_heartbeat ''10.0.0.1'' 140))) =
        cascade_log demo_completed"
    using c [of demo_completed _ "demo_heartbeat ''10.0.0.1'' 140"] a2 r2 d
    by (simp add: demo_defs)
  from s0 s9 n k k' a1 m(2) l1 a2 l2 show ?thesis by blast
qed

section \<open>Results about bot detection\<close>

lemma unbound_name_never_flags:
  "detect_bot_activity ra None = (if length ra < 10 then Inr False else Inl NameError)"
  by (simp add: detect_bot_activity_def)

text \<open>
  C7: once at least 10 samples exist the user is to be flagged exactly when the sample
  standard deviation of the intervals is below 1.0. The code does not get that far: past
  the guard on the number of samples it builds the intervals from \<open>activities\<close>, a name
  the function never binds (the samples are in \<open>recent_activities\<close>), and raises
  \<open>NameError\<close>. So the detector never flags anybody. For ten activities exactly 15
  seconds apart, whose intervals have standard deviation 0, the detector raises, the
  heartbeat ends in that exception with the row untouched, and
  \<open>require_captcha_verification\<close> raises before it can store the marker.
\<close>

theorem detector_raises_name_error:
  "detect_bot_activity ra None \<noteq> Inr True
   \<and> length regular_activities = 10
   \<and> stdev (intervals_between regular_activities) < 1
   \<and> activities regular_heartbeat = None
   \<and> detect_bot_activity regular_activities None = Inl NameError
   \<and> subsection_heartbeat regular_heartbeat (Some viewing_row) =
        ((Some viewing_row, []), Inl (Unhandled NameError))
   \<and> require_captcha_verification Map.empty 7 regular_activities None = (Map.empty, Inl NameError)"
proof -
  have never: "detect_bot_activity ra None \<noteq> Inr True"
    by (simp add: unbound_name_never_flags)
  have n: "length regular_activities = 10"
    by (simp add: regular_activities_def)
  have sd: "stdev (intervals_between regular_activities) < 1"
    by (simp add: regular_activities_def intervals_between_def stdev_def sample_variance_def mean_def)
  have raised: "detect_bot_activity regular_activities None = Inl NameError"
    by (simp add: unbound_name_never_flags n)
  have env: "recent_activities regular_heartbeat = regular_activities"
    "activities regular_heartbeat = None"
    by (simp_all add: regular_heartbeat_def demo_heartbeat_def)
  have hb: "subsection_heartbeat regular_heartbeat (Some viewing_row) =
        ((Some viewing_row, []), Inl (Unhandled NameError))"
    by (simp add: subsection_heartbeat_def env raised)
  have marker: "require_captcha_verification Map.empty 7 regular_activities None =
        (Map.empty, Inl NameError)"
    by (simp add: require_captcha_verification_def cache_get_def truthy_def raised)
  from never n sd env(2) raised hb marker show ?thesis by blast
qed

section \<open>Results about the rate limiter\<close>












end
